theory Spec2Isabelle
  imports Complex_Main
begin

section \<open>Python values, exceptions and the job registry (app.py)\<close>

text \<open>
  The values stored in a job's dict are strings and integers. A job entry is a Python
  dict from field names to such values; the global \<open>conversion_tasks\<close> is a dict
  from job ids to job entries. Both are modelled as maps. An entry is created fresh for
  every job and is reachable only through \<open>conversion_tasks\<close>, so in-place mutation of
  an entry is an update of the registry at that job id.
\<close>

datatype pyval = PStr string | PInt int

type_synonym task = "string \<rightharpoonup> pyval"

type_synonym registry = "string \<rightharpoonup> task"

text \<open>
  Exceptions that the modelled code can raise: a missing dict key, a list index out of
  range, a wrong argument type, a float that \<open>int\<close> cannot convert, and any exception
  raised inside the external media library (carrying its message).
\<close>

datatype exn =
  KeyError string | IndexError | TypeError string | ValueError string | LibraryError string

datatype 'a outcome = Return 'a | Raise exn

text \<open>
  \<^verbatim>\<open>
  def update_progress(job_id, progress):
      if job_id in conversion_tasks:
          conversion_tasks[job_id]['progress'] = progress
  \<close>
\<close>

definition update_progress :: "registry \<Rightarrow> string \<Rightarrow> int \<Rightarrow> registry" where
  "update_progress conversion_tasks job_id progress =
     (case conversion_tasks job_id of
        None \<Rightarrow> conversion_tasks
      | Some t \<Rightarrow> conversion_tasks(job_id \<mapsto> t(''progress'' \<mapsto> PInt progress)))"

text \<open>
  \<open>conversion_tasks[job_id].update(fields)\<close>: the subscript raises \<open>KeyError\<close> for an
  absent job id, before anything is written; otherwise the given fields overwrite or
  extend the entry.
\<close>

definition update_entry :: "registry \<Rightarrow> string \<Rightarrow> task \<Rightarrow> unit outcome \<times> registry" where
  "update_entry conversion_tasks job_id fields =
     (case conversion_tasks job_id of
        None \<Rightarrow> (Raise (KeyError job_id), conversion_tasks)
      | Some t \<Rightarrow> (Return (), conversion_tasks(job_id \<mapsto> t ++ fields)))"

text \<open>
  The registry operations that \<open>background_convert\<close> performs inline, under the names
  the specification gives them: line 119 (\<open>complete\<close>) and lines 121 and 125 (\<open>fail\<close>).
\<close>

definition complete :: "registry \<Rightarrow> string \<Rightarrow> unit outcome \<times> registry" where
  "complete conversion_tasks job_id =
     update_entry conversion_tasks job_id
       [''status'' \<mapsto> PStr ''completed'', ''progress'' \<mapsto> PInt 100]"

definition fail :: "registry \<Rightarrow> string \<Rightarrow> string \<Rightarrow> unit outcome \<times> registry" where
  "fail conversion_tasks job_id error =
     update_entry conversion_tasks job_id
       [''status'' \<mapsto> PStr ''failed'', ''progress'' \<mapsto> PInt 0, ''error'' \<mapsto> PStr error]"


text \<open>
  \<open>str(e)\<close>, as the except branch of \<open>background_convert\<close> stores it: the message of the
  exception; for a \<open>KeyError\<close> the quoted key (exact for keys without quotes or escapes).
\<close>

fun str_exn :: "exn \<Rightarrow> string" where
  "str_exn (KeyError k) = [CHR 0x27] @ k @ [CHR 0x27]"
| "str_exn IndexError = ''list index out of range''"
| "str_exn (TypeError m) = m"
| "str_exn (ValueError m) = m"
| "str_exn (LibraryError m) = m"

section \<open>Upload filename check (app.py, allowed_file)\<close>

text \<open>
  A name is the list of its characters (for a name outside ASCII, the bytes of its UTF-8
  encoding, in which the byte of the dot occurs only as the dot). \<open>str.lower\<close> is
  Python's own, defined on all of Unicode and not part of the repository: it is a
  parameter, \<open>str_lower\<close>.
\<close>

definition ALLOWED_EXTENSIONS :: "string set" where
  "ALLOWED_EXTENSIONS = {''mp4'', ''avi'', ''mov'', ''mkv'', ''webm''}"

text \<open>
  \<open>s.rsplit(sep, 1)\<close>: one split at the last occurrence of the separator, or the whole
  string alone when the separator does not occur.
\<close>

definition rsplit1 :: "char \<Rightarrow> string \<Rightarrow> string list" where
  "rsplit1 sep s =
     (if sep \<in> set s
      then [rev (tl (dropWhile (\<lambda>c. c \<noteq> sep) (rev s))), rev (takeWhile (\<lambda>c. c \<noteq> sep) (rev s))]
      else [s])"

text \<open>\<open>xs[i]\<close> for a non-negative index: \<open>IndexError\<close> out of range.\<close>

definition subscript :: "'a list \<Rightarrow> nat \<Rightarrow> 'a outcome" where
  "subscript xs i = (if i < length xs then Return (xs ! i) else Raise IndexError)"

text \<open>
  \<^verbatim>\<open>
  def allowed_file(filename):
      return '.' in filename and filename.rsplit('.', 1)[1].lower() in ALLOWED_EXTENSIONS
  \<close>
  \<open>and\<close> evaluates its right operand only when the left one holds.
\<close>

definition allowed_file :: "(string \<Rightarrow> string) \<Rightarrow> string \<Rightarrow> bool outcome" where
  "allowed_file str_lower filename =
     (if CHR ''.'' \<in> set filename
      then (case subscript (rsplit1 (CHR ''.'') filename) 1 of
              Raise e \<Rightarrow> Raise e
            | Return ext \<Rightarrow> Return (str_lower ext \<in> ALLOWED_EXTENSIONS))
      else Return False)"

text \<open>
  The acceptance rule in the words of the specification, for comparison with
  \<open>allowed_file\<close>: the name contains a dot; cut at every dot, its final segment, lowercased,
  is one of the five extensions, which the rule lists itself.
\<close>

fun split_on :: "char \<Rightarrow> string \<Rightarrow> string list" where
  "split_on sep [] = [[]]"
| "split_on sep (c # cs) =
     (if c = sep then [] # split_on sep cs
      else (case split_on sep cs of
              [] \<Rightarrow> [[c]]
            | seg # segs \<Rightarrow> (c # seg) # segs))"

definition final_segment :: "string \<Rightarrow> string" where
  "final_segment filename = last (split_on (CHR ''.'') filename)"

definition spec_accepts :: "(string \<Rightarrow> string) \<Rightarrow> string \<Rightarrow> bool" where
  "spec_accepts lowercased filename =
     (CHR ''.'' \<in> set filename
      \<and> (lowercased (final_segment filename) = ''mp4''
         \<or> lowercased (final_segment filename) = ''avi''
         \<or> lowercased (final_segment filename) = ''mov''
         \<or> lowercased (final_segment filename) = ''mkv''
         \<or> lowercased (final_segment filename) = ''webm''))"

section \<open>Credential gate (app.py, require_api_key)\<close>

text \<open>
  \<open>request.headers.get\<close> and \<open>request.form.get\<close> give a string or \<open>None\<close>. Python's
  \<open>a or b\<close> is \<open>a\<close> when \<open>a\<close> is truthy and \<open>b\<close> otherwise; \<open>None\<close> and the empty string are
  the falsy values here. The configured key \<open>API_KEY\<close> comes from the process environment
  and is a parameter. A refusal carries the HTTP status and the \<open>error\<close> field of its JSON
  body; \<open>f\<close> stands for the result of the wrapped handler.
\<close>

definition truthy :: "string option \<Rightarrow> bool" where
  "truthy v = (case v of None \<Rightarrow> False | Some s \<Rightarrow> s \<noteq> [])"

definition py_or :: "string option \<Rightarrow> string option \<Rightarrow> string option" where
  "py_or a b = (if truthy a then a else b)"

definition require_api_key ::
  "string \<Rightarrow> 'a \<Rightarrow> string option \<Rightarrow> string option \<Rightarrow> (nat \<times> string) + 'a" where
  "require_api_key API_KEY f header form =
     (let api_key = py_or header form in
      if \<not> truthy api_key then Inl (401, ''API key required for conversion'')
      else if api_key \<noteq> Some API_KEY then Inl (403, ''Invalid API key'')
      else Inr f)"

section \<open>The world the job runner acts on\<close>

text \<open>
  The state outside a single call: the job registry, the files in storage (the set of
  paths that exist), the source files on which a clip currently holds an open reader,
  and the percentages handed to the progress callback so far, in order. Two threads
  acting on it at once are not modelled: every operation runs from start to end.
\<close>

record world =
  conversion_tasks :: registry
  files :: "string set"
  open_files :: "string list"
  reported :: "int list"

section \<open>The media library, as the adapter uses it (video_to_gif.py)\<close>

text \<open>
  Times, the speed and the scale are Python floats. Their type \<open>'f\<close> and the operations
  the adapter applies to them are parameters, so that nothing is assumed about rounding,
  infinities or NaN: \<open>fadd a b\<close> is \<open>a + b\<close>, \<open>fsub a b\<close> is \<open>a - b\<close>, \<open>fgt a b\<close> is
  \<open>a > b\<close>, \<open>feq a b\<close> is \<open>a == b\<close>, \<open>fzero\<close>, \<open>fhalf\<close> and \<open>fone\<close> are 0.0, 0.5 and
  1.0, and \<open>scaled n x\<close> is \<open>int(n * x)\<close>, which raises (given by the message) when the
  product is infinite or NaN.
\<close>

record 'f floats =
  fadd :: "'f \<Rightarrow> 'f \<Rightarrow> 'f"
  fsub :: "'f \<Rightarrow> 'f \<Rightarrow> 'f"
  fgt :: "'f \<Rightarrow> 'f \<Rightarrow> bool"
  feq :: "'f \<Rightarrow> 'f \<Rightarrow> bool"
  fzero :: 'f
  fhalf :: 'f
  fone :: 'f
  scaled :: "int \<Rightarrow> 'f \<Rightarrow> string + int"

text \<open>The adapter reads three attributes of a clip.\<close>

record 'f clip =
  clip_duration :: 'f
  clip_w :: int
  clip_h :: int

text \<open>
  The library is not part of the repository, so its operations are parameters. Each
  either returns a clip or raises an exception, given by its message; \<open>write_gif\<close>
  returns the exception it raised, if any, and the files in storage afterwards.
\<close>

record 'f moviepy =
  VideoFileClip :: "string \<Rightarrow> string set \<Rightarrow> string + 'f clip"
  subclipped :: "'f clip \<Rightarrow> 'f \<Rightarrow> 'f option \<Rightarrow> string + 'f clip"
  with_speed_scaled :: "'f clip \<Rightarrow> 'f \<Rightarrow> string + 'f clip"
  resized :: "'f clip \<Rightarrow> int \<times> int \<Rightarrow> string + 'f clip"
  with_fps :: "'f clip \<Rightarrow> int \<Rightarrow> string + 'f clip"
  write_gif ::
    "'f clip \<Rightarrow> string \<Rightarrow> int \<Rightarrow> int \<Rightarrow> string set \<Rightarrow> string option \<times> string set"

text \<open>
  A progress callback acts on the registry, the only structure the threads share; it
  may raise.
\<close>

type_synonym callback = "int \<Rightarrow> registry \<Rightarrow> exn option \<times> registry"

text \<open>
  \<^verbatim>\<open>
  def safe_progress(percent):
      if progress_callback:
          try:
              progress_callback(percent)
          except Exception:
              pass
  \<close>
  What the callback did before it raised stays done; the exception is dropped.
\<close>

definition safe_progress :: "callback option \<Rightarrow> int \<Rightarrow> world \<Rightarrow> world" where
  "safe_progress progress_callback percent s =
     (case progress_callback of
        None \<Rightarrow> s
      | Some cb \<Rightarrow>
          s\<lparr>conversion_tasks := snd (cb percent (conversion_tasks s)),
            reported := reported s @ [percent]\<rparr>)"

text \<open>
  Lines 51 to 62, in three steps. \<open>effective_duration\<close> is the value of the local
  variable \<open>duration\<close> after the block; \<open>time_window\<close> is the argument pair of the
  \<open>subclipped\<close> call the block makes (none when it makes no call); \<open>apply_time\<close> makes
  the call.
\<close>

definition effective_duration :: "'f floats \<Rightarrow> 'f \<Rightarrow> 'f option \<Rightarrow> 'f \<Rightarrow> 'f option" where
  "effective_duration F start_time duration source_len =
     (if fgt F start_time (fzero F) then
        (case duration of
           Some d \<Rightarrow>
             if fgt F (fadd F start_time d) source_len
             then Some (fsub F source_len start_time)
             else Some d
         | None \<Rightarrow> None)
      else
        (case duration of
           Some d \<Rightarrow> if fgt F d source_len then Some source_len else Some d
         | None \<Rightarrow> None))"

definition time_window ::
  "'f floats \<Rightarrow> 'f \<Rightarrow> 'f option \<Rightarrow> 'f \<Rightarrow> ('f \<times> 'f option) option" where
  "time_window F start_time duration source_len =
     (if fgt F start_time (fzero F) then
        (case effective_duration F start_time duration source_len of
           Some d \<Rightarrow> Some (start_time, Some (fadd F start_time d))
         | None \<Rightarrow> Some (start_time, None))
      else
        (case effective_duration F start_time duration source_len of
           Some d \<Rightarrow> Some (fzero F, Some d)
         | None \<Rightarrow> None))"

definition apply_time ::
  "'f floats \<Rightarrow> 'f moviepy \<Rightarrow> 'f clip \<Rightarrow> 'f \<Rightarrow> 'f option \<Rightarrow> string + 'f clip" where
  "apply_time F lib c start_time duration =
     (case time_window F start_time duration (clip_duration c) of
        None \<Rightarrow> Inr c
      | Some (a, b) \<Rightarrow> subclipped lib c a b)"

text \<open>
  Lines 67 to 72: a speed other than 1.0 is applied when positive; otherwise a warning
  is printed and the clip is left as it is.
\<close>

definition apply_speed :: "'f floats \<Rightarrow> 'f moviepy \<Rightarrow> 'f clip \<Rightarrow> 'f \<Rightarrow> string + 'f clip" where
  "apply_speed F lib c speed =
     (if \<not> feq F speed (fone F)
      then (if fgt F speed (fzero F) then with_speed_scaled lib c speed else Inr c)
      else Inr c)"

text \<open>
  Lines 77 to 79. The new size is computed first, width before height, and either
  \<open>int\<close> can raise; then the library resizes.
\<close>

definition apply_scale :: "'f floats \<Rightarrow> 'f moviepy \<Rightarrow> 'f clip \<Rightarrow> 'f \<Rightarrow> exn + 'f clip" where
  "apply_scale F lib c scale =
     (if \<not> feq F scale (fone F)
      then (case scaled F (clip_w c) scale of
              Inl m \<Rightarrow> Inl (ValueError m)
            | Inr nw \<Rightarrow>
                (case scaled F (clip_h c) scale of
                   Inl m \<Rightarrow> Inl (ValueError m)
                 | Inr nh \<Rightarrow>
                     (case resized lib c (nw, nh) of
                        Inl e \<Rightarrow> Inl (LibraryError e)
                      | Inr c' \<Rightarrow> Inr c')))
      else Inr c)"

text \<open>
  Lines 88 to 104: the only part of the adapter inside \<open>try\<close>/\<open>finally\<close>. Whatever
  \<open>write_gif\<close> does, the clip is closed on the way out, which releases the reader opened
  on the source file (every clip derived from the opened one shares that reader).
\<close>

definition write_and_close ::
  "'f moviepy \<Rightarrow> 'f clip \<Rightarrow> string \<Rightarrow> string \<Rightarrow> int \<Rightarrow> int \<Rightarrow> callback option \<Rightarrow> world
     \<Rightarrow> bool outcome \<times> world" where
  "write_and_close lib c input_path output_path fps loops progress_callback s =
     (let (raised, fs) = write_gif lib c output_path fps loops (files s);
          s1 = s\<lparr>files := fs\<rparr>;
          success = (raised = None \<and> output_path \<in> fs);
          s2 = safe_progress progress_callback (if success then 100 else - 1) s1
      in (Return success, s2\<lparr>open_files := remove1 input_path (open_files s2)\<rparr>))"

text \<open>
  \<open>convert_video_to_gif_web\<close>, lines 41 to 104. An exception of the library at line 44
  is caught and turned into \<open>False\<close>; one at lines 56 to 84 is caught nowhere in the
  function and leaves it as an exception.
\<close>

definition convert_video_to_gif_web ::
  "'f floats \<Rightarrow> 'f moviepy \<Rightarrow> string \<Rightarrow> string \<Rightarrow> int \<Rightarrow> 'f \<Rightarrow> 'f \<Rightarrow> 'f option \<Rightarrow> int \<Rightarrow> 'f
     \<Rightarrow> callback option \<Rightarrow> world \<Rightarrow> bool outcome \<times> world" where
  "convert_video_to_gif_web F lib input_path output_path fps scale start_time duration loops
       speed progress_callback s0 =
     (let s1 = safe_progress progress_callback 5 s0 in
      case VideoFileClip lib input_path (files s1) of
        Inl e \<Rightarrow> (Return False, safe_progress progress_callback (- 1) s1)
      | Inr c0 \<Rightarrow>
          let s2 = safe_progress progress_callback 20
                     (s1\<lparr>open_files := input_path # open_files s1\<rparr>) in
          (case apply_time F lib c0 start_time duration of
             Inl e \<Rightarrow> (Raise (LibraryError e), s2)
           | Inr c1 \<Rightarrow>
               let s3 = safe_progress progress_callback 40 s2 in
               (case apply_speed F lib c1 speed of
                  Inl e \<Rightarrow> (Raise (LibraryError e), s3)
                | Inr c2 \<Rightarrow>
                    let s4 = safe_progress progress_callback 50 s3 in
                    (case apply_scale F lib c2 scale of
                       Inl e \<Rightarrow> (Raise e, s4)
                     | Inr c3 \<Rightarrow>
                         let s5 = safe_progress progress_callback 70 s4 in
                         (case with_fps lib c3 fps of
                            Inl e \<Rightarrow> (Raise (LibraryError e), s5)
                          | Inr c4 \<Rightarrow>
                              write_and_close lib c4 input_path output_path fps loops
                                progress_callback
                                (safe_progress progress_callback 80 s5))))))"

section \<open>The job runner (app.py, background_convert)\<close>

text \<open>
  The conversion parameters are a dict read with \<open>params.get(key, default)\<close>: an absent
  key gives the default.
\<close>

record 'f params =
  p_fps :: "int option"
  p_scale :: "'f option"
  p_start_time :: "'f option"
  p_duration :: "'f option"
  p_loops :: "int option"
  p_speed :: "'f option"

text \<open>Lines 109 to 114, except for the duration, whose default is \<open>None\<close>.\<close>

definition param_fps :: "'f params \<Rightarrow> int" where
  "param_fps ps = (case p_fps ps of None \<Rightarrow> 10 | Some v \<Rightarrow> v)"

definition param_scale :: "'f floats \<Rightarrow> 'f params \<Rightarrow> 'f" where
  "param_scale F ps = (case p_scale ps of None \<Rightarrow> fhalf F | Some v \<Rightarrow> v)"

definition param_start_time :: "'f floats \<Rightarrow> 'f params \<Rightarrow> 'f" where
  "param_start_time F ps = (case p_start_time ps of None \<Rightarrow> fzero F | Some v \<Rightarrow> v)"

definition param_loops :: "'f params \<Rightarrow> int" where
  "param_loops ps = (case p_loops ps of None \<Rightarrow> 0 | Some v \<Rightarrow> v)"

definition param_speed :: "'f floats \<Rightarrow> 'f params \<Rightarrow> 'f" where
  "param_speed F ps = (case p_speed ps of None \<Rightarrow> fone F | Some v \<Rightarrow> v)"

text \<open>The callback of line 115: \<open>lambda p: update_progress(job_id, p)\<close>.\<close>

definition progress_hook :: "string \<Rightarrow> callback" where
  "progress_hook job_id = (\<lambda>p reg. (None, update_progress reg job_id p))"

text \<open>Line 103 and the call of lines 106 to 116.\<close>

definition run_adapter ::
  "'f floats \<Rightarrow> 'f moviepy \<Rightarrow> string \<Rightarrow> string \<Rightarrow> 'f params \<Rightarrow> string \<Rightarrow> world
     \<Rightarrow> bool outcome \<times> world" where
  "run_adapter F lib input_path output_path ps job_id s0 =
     convert_video_to_gif_web F lib input_path output_path
       (param_fps ps)
       (param_scale F ps)
       (param_start_time F ps)
       (p_duration ps)
       (param_loops ps)
       (param_speed F ps)
       (Some (progress_hook job_id))
       (s0\<lparr>conversion_tasks := (conversion_tasks s0)
              (job_id \<mapsto> [''status'' \<mapsto> PStr ''processing'', ''progress'' \<mapsto> PInt 0])\<rparr>)"

text \<open>
  \<open>background_convert\<close>, lines 101 to 132. The body of \<open>try\<close> ends with \<open>complete\<close> or
  \<open>fail\<close>; an exception from anywhere in it reaches the \<open>except\<close> branch, which records
  the failure with \<open>str(e)\<close> and can itself raise; \<open>finally\<close> removes the input file.
  Logging is left out.
\<close>

definition background_convert ::
  "'f floats \<Rightarrow> 'f moviepy \<Rightarrow> string \<Rightarrow> string \<Rightarrow> 'f params \<Rightarrow> string \<Rightarrow> world
     \<Rightarrow> unit outcome \<times> world" where
  "background_convert F lib input_path output_path ps job_id s0 =
     (let (success, s1) = run_adapter F lib input_path output_path ps job_id s0;
          (body, reg2) =
            (case success of
               Return True \<Rightarrow> complete (conversion_tasks s1) job_id
             | Return False \<Rightarrow> fail (conversion_tasks s1) job_id ''Conversion failed''
             | Raise e \<Rightarrow> (Raise e, conversion_tasks s1));
          (result, reg3) =
            (case body of
               Return u \<Rightarrow> (Return (), reg2)
             | Raise e \<Rightarrow> fail reg2 job_id (str_exn e))
      in (result, s1\<lparr>conversion_tasks := reg3, files := files s1 - {input_path}\<rparr>))"

section \<open>Retrieval (app.py, download)\<close>

text \<open>\<open>os.path.join(a, b)\<close> on POSIX paths.\<close>

definition os_path_join :: "string \<Rightarrow> string \<Rightarrow> string" where
  "os_path_join a b =
     (if b \<noteq> [] \<and> hd b = CHR ''/'' then b
      else if a = [] \<or> last a = CHR ''/'' then a @ b
      else a @ ''/'' @ b)"

text \<open>
  A response is a text body with a status code, or the file sent as an attachment; the
  download name of the attachment is made from the time of the request.
\<close>

datatype response = Text string nat | SendFile string int

text \<open>
  \<open>download\<close>, lines 206 to 225. The temporary directory and the clock are parameters.
  \<open>task['output_filename']\<close> raises \<open>KeyError\<close> when the entry has no such field, and
  \<open>os.path.join\<close> raises \<open>TypeError\<close> on a name that is not a string. The file is
  sent as it exists at line 216; the function neither deletes nor changes it.
\<close>

definition download :: "string \<Rightarrow> int \<Rightarrow> string \<Rightarrow> world \<Rightarrow> response outcome \<times> world" where
  "download tmpdir now job_id s =
     (case conversion_tasks s job_id of
        None \<Rightarrow> (Return (Text ''Job not found'' 404), s)
      | Some task \<Rightarrow>
          if task ''status'' \<noteq> Some (PStr ''completed'')
          then (Return (Text ''Conversion not completed or failed'' 400), s)
          else
            (case task ''output_filename'' of
               None \<Rightarrow> (Raise (KeyError ''output_filename''), s)
             | Some (PInt n) \<Rightarrow> (Raise (TypeError ''expected str, bytes or os.PathLike object, not int''), s)
             | Some (PStr name) \<Rightarrow>
                 let output_path = os_path_join tmpdir name in
                 if output_path \<notin> files s
                 then (Return (Text ''Output file not found'' 404), s)
                 else (Return (SendFile output_path now),
                       s\<lparr>conversion_tasks := (conversion_tasks s)(job_id := None)\<rparr>)))"

section \<open>A sample environment for concrete runs\<close>

text \<open>
  Floats whose arithmetic is exact: the rationals, with \<open>int\<close> truncating towards zero.
  On floats with integer values of moderate size Python computes the same sums,
  differences and comparisons.
\<close>

definition py_int :: "rat \<Rightarrow> int" where
  "py_int x = (if 0 \<le> x then \<lfloor>x\<rfloor> else \<lceil>x\<rceil>)"

definition exact_floats :: "rat floats" where
  "exact_floats =
     \<lparr>fadd = (\<lambda>a b. a + b), fsub = (\<lambda>a b. a - b), fgt = (\<lambda>a b. a > b),
      feq = (\<lambda>a b. a = b), fzero = 0, fhalf = 1 / 2, fone = 1,
      scaled = (\<lambda>n x. Inr (py_int (of_int n * x)))\<rparr>"

text \<open>
  \<open>str.lower\<close> as it acts on ASCII names: the letters A to Z are lowered, every other
  character stays.
\<close>

definition ascii_lower_char :: "char \<Rightarrow> char" where
  "ascii_lower_char c =
     (let n = (of_char c :: nat) in if 65 \<le> n \<and> n \<le> 90 then char_of (n + 32) else c)"

definition ascii_lower :: "string \<Rightarrow> string" where
  "ascii_lower s = map ascii_lower_char s"

text \<open>
  A library in which the source file must exist and holds a clip of 10 seconds at
  640 by 480, \<open>subclipped\<close> refuses a start at or beyond the end of the clip (as the
  library does), every other step succeeds, and \<open>write_gif\<close> creates the output file.
  \<open>silent_lib\<close> differs in that \<open>write_gif\<close> returns without creating the file.
\<close>

definition sample_lib :: "rat moviepy" where
  "sample_lib =
     \<lparr>VideoFileClip = (\<lambda>path fs.
          if path \<in> fs then Inr \<lparr>clip_duration = 10, clip_w = 640, clip_h = 480\<rparr>
          else Inl ''file not found''),
      subclipped = (\<lambda>c a b.
          if a \<ge> clip_duration c then Inl ''start_time should be smaller than the duration''
          else Inr (c\<lparr>clip_duration := (case b of None \<Rightarrow> clip_duration c | Some e \<Rightarrow> e) - a\<rparr>)),
      with_speed_scaled = (\<lambda>c f. Inr (c\<lparr>clip_duration := clip_duration c / f\<rparr>)),
      resized = (\<lambda>c (nw, nh). Inr (c\<lparr>clip_w := nw, clip_h := nh\<rparr>)),
      with_fps = (\<lambda>c fps. Inr c),
      write_gif = (\<lambda>c out fps loops fs. (None, insert out fs))\<rparr>"

definition silent_lib :: "rat moviepy" where
  "silent_lib = sample_lib\<lparr>write_gif := (\<lambda>c out fps loops fs. (None, fs))\<rparr>"

definition default_params :: "rat params" where
  "default_params =
     \<lparr>p_fps = Some 10, p_scale = Some (1 / 2), p_start_time = Some 0, p_duration = None,
      p_loops = Some 0, p_speed = Some 1\<rparr>"

text \<open>A world with the uploaded input in storage and an empty registry.\<close>

definition uploaded :: world where
  "uploaded =
     \<lparr>conversion_tasks = Map.empty, files = {''/tmp/flask_gif_input_j1_in.mp4''},
      open_files = [], reported = []\<rparr>"

text \<open>A world with one completed job whose output is in storage.\<close>

definition finished :: world where
  "finished =
     \<lparr>conversion_tasks =
        [''j1'' \<mapsto> [''status'' \<mapsto> PStr ''completed'', ''progress'' \<mapsto> PInt 100,
                   ''output_filename'' \<mapsto> PStr ''flask_gif_output_j1.gif'']],
      files = {''/tmp/flask_gif_output_j1.gif''}, open_files = [], reported = []\<rparr>"

section \<open>Auxiliary facts\<close>

subsection \<open>Splitting a name at its dots\<close>

lemma split_on_nonempty: "split_on sep s \<noteq> []"
  by (induction s) (auto split: list.splits)

lemma split_on_single: "sep \<notin> set s \<Longrightarrow> split_on sep s = [s]"
  by (induction s) auto

lemma split_on_many: "sep \<in> set s \<Longrightarrow> \<exists>seg s2 segs. split_on sep s = seg # s2 # segs"
proof (induction s)
  case Nil
  then show ?case by simp
next
  case (Cons c cs)
  obtain seg segs where sp: "split_on sep cs = seg # segs"
    using split_on_nonempty [of sep cs] by (cases "split_on sep cs") auto
  show ?case
  proof (cases "c = sep")
    case True
    then show ?thesis using sp by simp
  next
    case False
    then have "sep \<in> set cs" using Cons.prems by simp
    then obtain a b r where "split_on sep cs = a # b # r" using Cons.IH by blast
    then show ?thesis using False by simp
  qed
qed

lemma last_split_on: "last (split_on sep s) = rev (takeWhile (\<lambda>c. c \<noteq> sep) (rev s))"
proof (induction s)
  case Nil
  show ?case by simp
next
  case (Cons c cs)
  show ?case
  proof (cases "sep \<in> set cs")
    case True
    then obtain seg s2 segs where sp: "split_on sep cs = seg # s2 # segs"
      using split_on_many by blast
    have tw: "takeWhile (\<lambda>c. c \<noteq> sep) (rev cs @ [c]) = takeWhile (\<lambda>c. c \<noteq> sep) (rev cs)"
      using True by (auto simp: takeWhile_append)
    show ?thesis using Cons.IH sp tw by simp
  next
    case False
    then have sp: "split_on sep cs = [cs]" by (rule split_on_single)
    have tw: "takeWhile (\<lambda>c. c \<noteq> sep) (rev cs) = rev cs"
      using False by auto
    show ?thesis using sp tw False by (auto simp: takeWhile_append)
  qed
qed

lemma final_segment_eq:
  "final_segment filename = rev (takeWhile (\<lambda>c. c \<noteq> CHR ''.'') (rev filename))"
  by (simp add: final_segment_def last_split_on)

lemma allowed_file_eq_spec:
  "allowed_file str_lower filename = Return (spec_accepts str_lower filename)"
  by (simp add: allowed_file_def spec_accepts_def rsplit1_def subscript_def final_segment_eq
        ALLOWED_EXTENSIONS_def)

subsection \<open>Lowering ASCII names\<close>

lemma ascii_lower_letters:
  "ascii_lower ''ABCDEFGHIJKLMNOPQRSTUVWXYZ'' = ''abcdefghijklmnopqrstuvwxyz''"
  by code_simp

lemma ascii_lower_others:
  "ascii_lower ''abcdefghijklmnopqrstuvwxyz0123456789._-'' = ''abcdefghijklmnopqrstuvwxyz0123456789._-''"
  by code_simp

lemma ascii_lower_samples:
  "ascii_lower ''MP4'' = ''mp4''" "ascii_lower ''WebM'' = ''webm''" "ascii_lower ''MKV'' = ''mkv''"
  "ascii_lower ''mkv'' = ''mkv''" "ascii_lower ''txt'' = ''txt''"
  by code_simp+

lemma final_segment_samples:
  "final_segment ''CLIP.MP4'' = ''MP4''" "final_segment ''Movie.WebM'' = ''WebM''"
  "final_segment ''a.MKV'' = ''MKV''" "final_segment ''b.c.mkv'' = ''mkv''"
  "final_segment ''clip.txt'' = ''txt''" "final_segment ''a.mp4.txt'' = ''txt''"
  by (simp_all add: final_segment_eq)

subsection \<open>The registry\<close>

lemma update_progress_noop_iff:
  assumes "reg job_id = Some t"
  shows "(update_progress reg job_id p = reg) = (t ''progress'' = Some (PInt p))"
proof
  assume "update_progress reg job_id p = reg"
  then have "update_progress reg job_id p job_id = reg job_id" by simp
  then have "t(''progress'' \<mapsto> PInt p) = t" using assms by (simp add: update_progress_def)
  then have "(t(''progress'' \<mapsto> PInt p)) ''progress'' = t ''progress''" by simp
  then show "t ''progress'' = Some (PInt p)" by simp
next
  assume "t ''progress'' = Some (PInt p)"
  then have "t(''progress'' \<mapsto> PInt p) = t" by (simp add: map_upd_triv)
  then show "update_progress reg job_id p = reg"
    using assms by (simp add: update_progress_def map_upd_triv)
qed

subsection \<open>What a progress report changes\<close>

lemma safe_progress_files [simp]: "files (safe_progress cb p s) = files s"
  by (simp add: safe_progress_def split: option.splits)

lemma safe_progress_open_files [simp]: "open_files (safe_progress cb p s) = open_files s"
  by (simp add: safe_progress_def split: option.splits)

lemma safe_progress_reported [simp]:
  "reported (safe_progress (Some cb) p s) = reported s @ [p]"
  by (simp add: safe_progress_def)

lemma safe_progress_hook_absent:
  "(conversion_tasks (safe_progress (Some (progress_hook j)) p s) j = None)
     = (conversion_tasks s j = None)"
  by (simp add: safe_progress_def progress_hook_def update_progress_def split: option.splits)

lemma safe_progress_hook_present [simp]:
  "(\<exists>y. conversion_tasks (safe_progress (Some (progress_hook j)) p s) j = Some y)
     = (\<exists>y. conversion_tasks s j = Some y)"
  using safe_progress_hook_absent [of j p s] by (simp only: not_None_eq [symmetric])

subsection \<open>The exits of the adapter\<close>

text \<open>The job's entry survives the adapter: its callback only writes the progress field.\<close>

lemma convert_keeps_entry:
  "conversion_tasks s j \<noteq> None \<Longrightarrow>
   conversion_tasks (snd (convert_video_to_gif_web F lib ip out fps scale st dur loops speed
                            (Some (progress_hook j)) s)) j \<noteq> None"
  by (simp add: convert_video_to_gif_web_def write_and_close_def Let_def
           split: sum.splits prod.splits)

lemma run_adapter_keeps_entry:
  "conversion_tasks (snd (run_adapter F lib ip out ps j s)) j \<noteq> None"
  unfolding run_adapter_def by (rule convert_keeps_entry) simp

text \<open>The adapter returns \<open>True\<close> only with the output file in storage.\<close>

lemma convert_success_output:
  "convert_video_to_gif_web F lib ip out fps scale st dur loops speed cb s = (Return True, s')
   \<Longrightarrow> out \<in> files s'"
  by (auto simp: convert_video_to_gif_web_def write_and_close_def Let_def
           split: sum.splits prod.splits)

text \<open>
  With a callback, a run that returns \<open>True\<close> has reported exactly the seven checkpoints,
  and a run that returns \<open>False\<close> has reported \<open>-1\<close> last.
\<close>

lemma convert_success_reported:
  "convert_video_to_gif_web F lib ip out fps scale st dur loops speed (Some cb) s = (Return True, s')
   \<Longrightarrow> reported s' = reported s @ [5, 20, 40, 50, 70, 80, 100]"
  by (auto simp: convert_video_to_gif_web_def write_and_close_def Let_def
           split: sum.splits prod.splits)

lemma convert_false_reported:
  "convert_video_to_gif_web F lib ip out fps scale st dur loops speed (Some cb) s = (Return False, s')
   \<Longrightarrow> last (reported s') = - 1"
  by (auto simp: convert_video_to_gif_web_def write_and_close_def Let_def
           split: sum.splits prod.splits)

text \<open>
  A run that returns has no reader left open on its source; a run that leaves by an
  exception has.
\<close>

lemma convert_return_releases:
  "convert_video_to_gif_web F lib ip out fps scale st dur loops speed cb s = (Return r, s')
   \<Longrightarrow> open_files s' = open_files s"
  by (auto simp: convert_video_to_gif_web_def write_and_close_def Let_def
           split: sum.splits prod.splits)

lemma convert_raise_leaks:
  "convert_video_to_gif_web F lib ip out fps scale st dur loops speed cb s = (Raise e, s')
   \<Longrightarrow> open_files s' = ip # open_files s"
  by (auto simp: convert_video_to_gif_web_def write_and_close_def Let_def
           split: sum.splits prod.splits)

text \<open>\<open>write_gif\<close> returning without the output file in storage makes the adapter return \<open>False\<close>.\<close>

lemma write_without_output:
  assumes "write_gif lib c out fps loops (files s) = (None, fs)" and "out \<notin> fs"
  shows "fst (write_and_close lib c ip out fps loops cb s) = Return False"
  using assms by (simp add: write_and_close_def)

text \<open>
  The runner never leaves by an exception: it creates the job's entry itself before it
  calls the adapter, so the entry is there when the result is recorded, also in the
  \<open>except\<close> branch.
\<close>

lemma background_convert_returns:
  "fst (background_convert F lib ip out ps j s) = Return ()"
proof -
  obtain r s' where run: "run_adapter F lib ip out ps j s = (r, s')"
    by (cases "run_adapter F lib ip out ps j s")
  with run_adapter_keeps_entry [of F lib ip out ps j s]
  obtain t0 where t0: "conversion_tasks s' j = Some t0" by auto
  show ?thesis
  proof (cases r)
    case (Return ok)
    with run t0 show ?thesis
      by (cases ok) (simp_all add: background_convert_def complete_def fail_def update_entry_def)
  next
    case (Raise e)
    with run t0 show ?thesis
      by (simp add: background_convert_def fail_def update_entry_def)
  qed
qed

text \<open>
  When every step up to \<open>write_gif\<close> succeeds and \<open>write_gif\<close> returns without the output
  file in storage, the adapter returns \<open>False\<close>.
\<close>

lemma run_adapter_output_missing:
  assumes "VideoFileClip lib ip (files s) = Inr c0"
    and "apply_time F lib c0 (param_start_time F ps) (p_duration ps) = Inr c1"
    and "apply_speed F lib c1 (param_speed F ps) = Inr c2"
    and "apply_scale F lib c2 (param_scale F ps) = Inr c3"
    and "with_fps lib c3 (param_fps ps) = Inr c4"
    and "write_gif lib c4 out (param_fps ps) (param_loops ps) (files s) = (None, fs)"
    and "out \<notin> fs"
  shows "fst (run_adapter F lib ip out ps j s) = Return False"
  using assms
  by (simp add: run_adapter_def convert_video_to_gif_web_def write_and_close_def)

text \<open>What the runner records when the adapter returns, and when it raises.\<close>

lemma runner_records_return:
  assumes "run_adapter F lib ip out ps j s = (Return ok, s')"
  shows "fst (background_convert F lib ip out ps j s) = Return ()
       \<and> (\<exists>t. conversion_tasks (snd (background_convert F lib ip out ps j s)) j = Some t
             \<and> (if ok
                 then t ''status'' = Some (PStr ''completed'')
                    \<and> t ''progress'' = Some (PInt 100)
                    \<and> out \<in> files s'
                 else t ''status'' = Some (PStr ''failed'')
                    \<and> t ''progress'' = Some (PInt 0)
                    \<and> t ''error'' = Some (PStr ''Conversion failed'')))"
proof -
  from run_adapter_keeps_entry [of F lib ip out ps j s] assms
  obtain t0 where t0: "conversion_tasks s' j = Some t0" by auto
  show ?thesis
  proof (cases ok)
    case True
    with assms have "out \<in> files s'"
      unfolding run_adapter_def by (auto dest: convert_success_output)
    with True assms t0 show ?thesis
      by (simp add: background_convert_def complete_def update_entry_def)
  next
    case False
    with assms t0 show ?thesis
      by (simp add: background_convert_def fail_def update_entry_def)
  qed
qed

lemma runner_records_exception:
  assumes "run_adapter F lib ip out ps j s = (Raise e, s')"
  shows "\<exists>t. conversion_tasks (snd (background_convert F lib ip out ps j s)) j = Some t
             \<and> t ''status'' = Some (PStr ''failed'')
             \<and> t ''progress'' = Some (PInt 0)
             \<and> t ''error'' = Some (PStr (str_exn e))"
proof -
  from run_adapter_keeps_entry [of F lib ip out ps j s] assms
  obtain t0 where t0: "conversion_tasks s' j = Some t0" by auto
  with assms show ?thesis
    by (simp add: background_convert_def fail_def update_entry_def)
qed

subsection \<open>Concrete runs\<close>

lemmas run_defs =
  run_adapter_def convert_video_to_gif_web_def write_and_close_def silent_lib_def
  sample_lib_def uploaded_def default_params_def apply_time_def time_window_def
  effective_duration_def apply_speed_def apply_scale_def py_int_def exact_floats_def
  param_fps_def param_scale_def param_start_time_def param_loops_def param_speed_def

lemma silent_run:
  "fst (run_adapter exact_floats silent_lib ''/tmp/flask_gif_input_j1_in.mp4''
          ''/tmp/flask_gif_output_j1.gif'' default_params ''j1'' uploaded) = Return False"
  by (simp add: run_defs)

lemma sample_run:
  "fst (run_adapter exact_floats sample_lib ''/tmp/flask_gif_input_j1_in.mp4''
          ''/tmp/flask_gif_output_j1.gif'' default_params ''j1'' uploaded) = Return True"
  by (simp add: run_defs)

lemma silent_steps:
  "VideoFileClip silent_lib ''/tmp/flask_gif_input_j1_in.mp4'' (files uploaded)
     = Inr \<lparr>clip_duration = 10, clip_w = 640, clip_h = 480\<rparr>"
  "apply_time exact_floats silent_lib \<lparr>clip_duration = 10, clip_w = 640, clip_h = 480\<rparr>
       (param_start_time exact_floats default_params) (p_duration default_params)
     = Inr \<lparr>clip_duration = 10, clip_w = 640, clip_h = 480\<rparr>"
  "apply_speed exact_floats silent_lib \<lparr>clip_duration = 10, clip_w = 640, clip_h = 480\<rparr>
       (param_speed exact_floats default_params)
     = Inr \<lparr>clip_duration = 10, clip_w = 640, clip_h = 480\<rparr>"
  "apply_scale exact_floats silent_lib \<lparr>clip_duration = 10, clip_w = 640, clip_h = 480\<rparr>
       (param_scale exact_floats default_params)
     = Inr \<lparr>clip_duration = 10, clip_w = 320, clip_h = 240\<rparr>"
  "with_fps silent_lib \<lparr>clip_duration = 10, clip_w = 320, clip_h = 240\<rparr>
       (param_fps default_params)
     = Inr \<lparr>clip_duration = 10, clip_w = 320, clip_h = 240\<rparr>"
  "write_gif silent_lib \<lparr>clip_duration = 10, clip_w = 320, clip_h = 240\<rparr>
       ''/tmp/flask_gif_output_j1.gif'' (param_fps default_params) (param_loops default_params)
       (files uploaded)
     = (None, {''/tmp/flask_gif_input_j1_in.mp4''})"
  by (simp_all add: run_defs)

section \<open>Retrieval\<close>

text \<open>
  C1, as the code has it. A retrieval that sends the file is a retrieval of a job whose
  status is completed; it removes that job's registry entry and no other, so that a
  second retrieval of the same job id answers "Job not found" with status 404. The
  output file is not deleted: the files in storage are the same after the retrieval as
  before it, and the file sent is still among them.
\<close>

theorem download_removes_entry_keeps_file:
  assumes "download tmpdir now job_id s = (Return (SendFile path ts), s')"
  shows "(\<exists>task. conversion_tasks s job_id = Some task
                 \<and> task ''status'' = Some (PStr ''completed''))
       \<and> conversion_tasks s' job_id = None
       \<and> (\<forall>other. other \<noteq> job_id \<longrightarrow> conversion_tasks s' other = conversion_tasks s other)
       \<and> download tmpdir later job_id s' = (Return (Text ''Job not found'' 404), s')
       \<and> files s' = files s
       \<and> path \<in> files s'"
  using assms
  by (auto simp: download_def Let_def split: option.splits if_splits pyval.splits)

theorem download_removes_entry_keeps_file_witness:
  "fst (download ''/tmp'' 17 ''j1'' finished) = Return (SendFile ''/tmp/flask_gif_output_j1.gif'' 17)
   \<and> conversion_tasks (snd (download ''/tmp'' 17 ''j1'' finished)) ''j1'' = None
   \<and> fst (download ''/tmp'' 18 ''j1'' (snd (download ''/tmp'' 17 ''j1'' finished)))
       = Return (Text ''Job not found'' 404)
   \<and> files (snd (download ''/tmp'' 17 ''j1'' finished)) = files finished"
proof -
  have a: "fst (download ''/tmp'' 17 ''j1'' finished)
             = Return (SendFile ''/tmp/flask_gif_output_j1.gif'' 17)"
    by (simp add: download_def finished_def os_path_join_def Let_def)
  then have b: "download ''/tmp'' 17 ''j1'' finished
             = (Return (SendFile ''/tmp/flask_gif_output_j1.gif'' 17),
                snd (download ''/tmp'' 17 ''j1'' finished))"
    by (simp add: prod_eq_iff)
  show ?thesis
    using a download_removes_entry_keeps_file [OF b, of 18] by simp
qed

text \<open>
  C1 as stated fails: after the retrieval of the completed job \<open>j1\<close> its output file is
  still in storage.
\<close>

theorem download_keeps_file_counterexample:
  "fst (download ''/tmp'' 17 ''j1'' finished) = Return (SendFile ''/tmp/flask_gif_output_j1.gif'' 17)
   \<and> ''/tmp/flask_gif_output_j1.gif'' \<in> files (snd (download ''/tmp'' 17 ''j1'' finished))"
  by (simp add: download_def finished_def os_path_join_def Let_def)

section \<open>Progress updates\<close>

text \<open>
  C2, as the code has it. On an entry whose status is completed, \<open>update_progress\<close>
  leaves the status completed and sets the progress field to the percentage it is given.
  It leaves the registry unchanged exactly when the entry's progress already is that
  percentage.
\<close>

theorem update_progress_on_completed:
  assumes "reg job_id = Some t" and "t ''status'' = Some (PStr ''completed'')"
  shows "(\<exists>t'. update_progress reg job_id p job_id = Some t'
            \<and> t' ''status'' = Some (PStr ''completed'')
            \<and> t' ''progress'' = Some (PInt p))
         \<and> ((update_progress reg job_id p = reg) = (t ''progress'' = Some (PInt p)))"
  using assms update_progress_noop_iff [of reg job_id t p] by (simp add: update_progress_def)

theorem update_progress_on_completed_witness:
  "(\<exists>t'. update_progress (conversion_tasks finished) ''j1'' 100 ''j1'' = Some t'
          \<and> t' ''status'' = Some (PStr ''completed'')
          \<and> t' ''progress'' = Some (PInt 100))
   \<and> update_progress (conversion_tasks finished) ''j1'' 100 = conversion_tasks finished"
  using update_progress_on_completed [of "conversion_tasks finished" "''j1''"
      "[''status'' \<mapsto> PStr ''completed'', ''progress'' \<mapsto> PInt 100,
        ''output_filename'' \<mapsto> PStr ''flask_gif_output_j1.gif'']" 100]
  by (simp add: finished_def)

text \<open>
  C2 as stated fails: on the completed job \<open>j1\<close>, whose progress is 100, an update with 50
  changes the registry and leaves the progress at 50.
\<close>

theorem update_progress_after_complete_counterexample:
  "update_progress (conversion_tasks finished) ''j1'' 50 \<noteq> conversion_tasks finished
   \<and> (case update_progress (conversion_tasks finished) ''j1'' 50 ''j1'' of
        None \<Rightarrow> False
      | Some t \<Rightarrow> t ''status'' = Some (PStr ''completed'') \<and> t ''progress'' = Some (PInt 50))"
proof -
  have "update_progress (conversion_tasks finished) ''j1'' 50 ''j1''
          \<noteq> conversion_tasks finished ''j1''"
  proof
    assume "update_progress (conversion_tasks finished) ''j1'' 50 ''j1''
              = conversion_tasks finished ''j1''"
    then have "the (update_progress (conversion_tasks finished) ''j1'' 50 ''j1'') ''progress''
                 = the (conversion_tasks finished ''j1'') ''progress''"
      by simp
    then show False by (simp add: update_progress_def finished_def)
  qed
  then have "update_progress (conversion_tasks finished) ''j1'' 50 \<noteq> conversion_tasks finished"
    by metis
  then show ?thesis by (simp add: update_progress_def finished_def)
qed

text \<open>
  C8. For a job id present in the registry and any percentage, \<open>update_progress\<close> sets the
  progress field of that job's entry to the percentage and changes nothing else: every
  other field of the entry (status, error, output filename) and every entry of another
  job id is as before.
\<close>

theorem update_progress_frame:
  assumes "reg job_id = Some t"
  shows "\<exists>t'. update_progress reg job_id p job_id = Some t'
            \<and> t' ''progress'' = Some (PInt p)
            \<and> (\<forall>field. field \<noteq> ''progress'' \<longrightarrow> t' field = t field)
            \<and> (\<forall>other. other \<noteq> job_id \<longrightarrow> update_progress reg job_id p other = reg other)"
  using assms by (simp add: update_progress_def)

theorem update_progress_frame_witness:
  "update_progress [''j1'' \<mapsto> [''status'' \<mapsto> PStr ''processing'', ''progress'' \<mapsto> PInt 0],
                    ''j2'' \<mapsto> [''status'' \<mapsto> PStr ''failed'', ''progress'' \<mapsto> PInt 0]] ''j1'' 40 ''j2''
     = Some [''status'' \<mapsto> PStr ''failed'', ''progress'' \<mapsto> PInt 0]
   \<and> (\<exists>t'. update_progress [''j1'' \<mapsto> [''status'' \<mapsto> PStr ''processing'', ''progress'' \<mapsto> PInt 0],
                    ''j2'' \<mapsto> [''status'' \<mapsto> PStr ''failed'', ''progress'' \<mapsto> PInt 0]] ''j1'' 40 ''j1'' = Some t'
          \<and> t' ''progress'' = Some (PInt 40) \<and> t' ''status'' = Some (PStr ''processing''))"
  using update_progress_frame [of "[''j1'' \<mapsto> [''status'' \<mapsto> PStr ''processing'', ''progress'' \<mapsto> PInt 0],
                    ''j2'' \<mapsto> [''status'' \<mapsto> PStr ''failed'', ''progress'' \<mapsto> PInt 0]]" "''j1''"
        "[''status'' \<mapsto> PStr ''processing'', ''progress'' \<mapsto> PInt 0]" 40]
  by auto

section \<open>Completion\<close>

text \<open>
  C4, as the code has it. The completion step is not guarded. For a job id absent from
  the registry it raises \<open>KeyError\<close> and leaves the registry unchanged; for a job id
  present in it, it returns and sets the status to completed and the progress to 100,
  keeping the other fields of the entry.
\<close>

theorem complete_unguarded:
  "(reg job_id = None \<longrightarrow> complete reg job_id = (Raise (KeyError job_id), reg))
   \<and> (\<forall>t. reg job_id = Some t \<longrightarrow>
         complete reg job_id =
           (Return (), reg(job_id \<mapsto> t(''status'' \<mapsto> PStr ''completed'', ''progress'' \<mapsto> PInt 100))))"
  by (auto simp: complete_def update_entry_def map_add_def fun_eq_iff)

theorem complete_unguarded_witness:
  "complete (conversion_tasks finished) ''j2''
     = (Raise (KeyError ''j2''), conversion_tasks finished)
   \<and> fst (complete [''j2'' \<mapsto> [''status'' \<mapsto> PStr ''processing'', ''progress'' \<mapsto> PInt 80]] ''j2'')
     = Return ()
   \<and> (case snd (complete [''j2'' \<mapsto> [''status'' \<mapsto> PStr ''processing'', ''progress'' \<mapsto> PInt 80]]
                  ''j2'') ''j2'' of
        None \<Rightarrow> False
      | Some t \<Rightarrow> t ''status'' = Some (PStr ''completed'') \<and> t ''progress'' = Some (PInt 100))"
  using complete_unguarded [of "conversion_tasks finished" "''j2''"]
    complete_unguarded [of "[''j2'' \<mapsto> [''status'' \<mapsto> PStr ''processing'', ''progress'' \<mapsto> PInt 80]]"
      "''j2''"]
  by (simp add: finished_def)

text \<open>
  C4 as stated fails: on the empty registry the completion step raises \<open>KeyError\<close>.
\<close>

theorem complete_absent_counterexample:
  "complete Map.empty ''j1'' = (Raise (KeyError ''j1''), Map.empty)"
  by (simp add: complete_def update_entry_def)

section \<open>The job runner\<close>

text \<open>
  C5, as the code has it. When every step of the conversion up to \<open>write_gif\<close> succeeds
  and \<open>write_gif\<close> returns without raising, but the output file is not in storage
  afterwards, the adapter returns \<open>False\<close>, the runner returns without an exception, and
  the job's entry has status failed, progress 0 and the error detail "Conversion
  failed". That detail is the one recorded whenever the adapter returns \<open>False\<close>. When
  the adapter returns \<open>True\<close>, the output file is in storage and the entry has status
  completed and progress 100.
\<close>

theorem runner_records_adapter_result:
  "(\<forall>c0 c1 c2 c3 c4 fs.
       VideoFileClip lib ip (files s) = Inr c0
     \<and> apply_time F lib c0 (param_start_time F ps) (p_duration ps) = Inr c1
     \<and> apply_speed F lib c1 (param_speed F ps) = Inr c2
     \<and> apply_scale F lib c2 (param_scale F ps) = Inr c3
     \<and> with_fps lib c3 (param_fps ps) = Inr c4
     \<and> write_gif lib c4 out (param_fps ps) (param_loops ps) (files s) = (None, fs)
     \<and> out \<notin> fs
     \<longrightarrow> fst (run_adapter F lib ip out ps j s) = Return False
       \<and> fst (background_convert F lib ip out ps j s) = Return ()
       \<and> (\<exists>t. conversion_tasks (snd (background_convert F lib ip out ps j s)) j = Some t
             \<and> t ''status'' = Some (PStr ''failed'')
             \<and> t ''progress'' = Some (PInt 0)
             \<and> t ''error'' = Some (PStr ''Conversion failed'')))
   \<and> (\<forall>ok s'. run_adapter F lib ip out ps j s = (Return ok, s')
       \<longrightarrow> fst (background_convert F lib ip out ps j s) = Return ()
         \<and> (\<exists>t. conversion_tasks (snd (background_convert F lib ip out ps j s)) j = Some t
               \<and> (if ok
                   then t ''status'' = Some (PStr ''completed'')
                      \<and> t ''progress'' = Some (PInt 100)
                      \<and> out \<in> files s'
                   else t ''status'' = Some (PStr ''failed'')
                      \<and> t ''progress'' = Some (PInt 0)
                      \<and> t ''error'' = Some (PStr ''Conversion failed''))))"
proof (intro conjI allI impI)
  fix c0 c1 c2 c3 c4 fs
  assume path: "VideoFileClip lib ip (files s) = Inr c0
     \<and> apply_time F lib c0 (param_start_time F ps) (p_duration ps) = Inr c1
     \<and> apply_speed F lib c1 (param_speed F ps) = Inr c2
     \<and> apply_scale F lib c2 (param_scale F ps) = Inr c3
     \<and> with_fps lib c3 (param_fps ps) = Inr c4
     \<and> write_gif lib c4 out (param_fps ps) (param_loops ps) (files s) = (None, fs)
     \<and> out \<notin> fs"
  then have false: "fst (run_adapter F lib ip out ps j s) = Return False"
    using run_adapter_output_missing [of lib ip s c0 F ps c1 c2 c3 c4 out fs j] by blast
  then have "run_adapter F lib ip out ps j s
               = (Return False, snd (run_adapter F lib ip out ps j s))"
    by (simp add: prod_eq_iff)
  from runner_records_return [OF this]
  have rec: "fst (background_convert F lib ip out ps j s) = Return ()
       \<and> (\<exists>t. conversion_tasks (snd (background_convert F lib ip out ps j s)) j = Some t
             \<and> t ''status'' = Some (PStr ''failed'')
             \<and> t ''progress'' = Some (PInt 0)
             \<and> t ''error'' = Some (PStr ''Conversion failed''))"
    by simp
  show "fst (run_adapter F lib ip out ps j s) = Return False" by (rule false)
  show "fst (background_convert F lib ip out ps j s) = Return ()" using rec by blast
  show "\<exists>t. conversion_tasks (snd (background_convert F lib ip out ps j s)) j = Some t
             \<and> t ''status'' = Some (PStr ''failed'')
             \<and> t ''progress'' = Some (PInt 0)
             \<and> t ''error'' = Some (PStr ''Conversion failed'')"
    using rec by blast
next
  fix ok s'
  assume run: "run_adapter F lib ip out ps j s = (Return ok, s')"
  show "fst (background_convert F lib ip out ps j s) = Return ()"
    using runner_records_return [OF run] by blast
  show "\<exists>t. conversion_tasks (snd (background_convert F lib ip out ps j s)) j = Some t
               \<and> (if ok
                   then t ''status'' = Some (PStr ''completed'')
                      \<and> t ''progress'' = Some (PInt 100)
                      \<and> out \<in> files s'
                   else t ''status'' = Some (PStr ''failed'')
                      \<and> t ''progress'' = Some (PInt 0)
                      \<and> t ''error'' = Some (PStr ''Conversion failed''))"
    using runner_records_return [OF run] by blast
qed

theorem runner_records_adapter_result_witness:
  "VideoFileClip silent_lib ''/tmp/flask_gif_input_j1_in.mp4'' (files uploaded)
     = Inr \<lparr>clip_duration = 10, clip_w = 640, clip_h = 480\<rparr>
   \<and> write_gif silent_lib \<lparr>clip_duration = 10, clip_w = 320, clip_h = 240\<rparr>
       ''/tmp/flask_gif_output_j1.gif'' (param_fps default_params) (param_loops default_params)
       (files uploaded)
     = (None, {''/tmp/flask_gif_input_j1_in.mp4''})
   \<and> ''/tmp/flask_gif_output_j1.gif'' \<notin> {''/tmp/flask_gif_input_j1_in.mp4''}
   \<and> fst (run_adapter exact_floats silent_lib ''/tmp/flask_gif_input_j1_in.mp4''
          ''/tmp/flask_gif_output_j1.gif'' default_params ''j1'' uploaded) = Return False
   \<and> (\<exists>t. conversion_tasks (snd (background_convert exact_floats silent_lib ''/tmp/flask_gif_input_j1_in.mp4''
              ''/tmp/flask_gif_output_j1.gif'' default_params ''j1'' uploaded)) ''j1'' = Some t
          \<and> t ''status'' = Some (PStr ''failed'')
          \<and> t ''progress'' = Some (PInt 0)
          \<and> t ''error'' = Some (PStr ''Conversion failed''))
   \<and> fst (run_adapter exact_floats sample_lib ''/tmp/flask_gif_input_j1_in.mp4''
          ''/tmp/flask_gif_output_j1.gif'' default_params ''j1'' uploaded) = Return True
   \<and> (\<exists>t. conversion_tasks (snd (background_convert exact_floats sample_lib ''/tmp/flask_gif_input_j1_in.mp4''
              ''/tmp/flask_gif_output_j1.gif'' default_params ''j1'' uploaded)) ''j1'' = Some t
          \<and> t ''status'' = Some (PStr ''completed'')
          \<and> t ''progress'' = Some (PInt 100))"
proof -
  let ?in = "''/tmp/flask_gif_input_j1_in.mp4''" and ?out = "''/tmp/flask_gif_output_j1.gif''"
  have missing: "?out \<notin> {?in}" by simp
  note path = silent_steps missing
  have a: "fst (run_adapter exact_floats silent_lib ?in ?out default_params ''j1'' uploaded)
             = Return False
       \<and> fst (background_convert exact_floats silent_lib ?in ?out default_params ''j1'' uploaded)
             = Return ()
       \<and> (\<exists>t. conversion_tasks (snd (background_convert exact_floats silent_lib ?in ?out
                  default_params ''j1'' uploaded)) ''j1'' = Some t
             \<and> t ''status'' = Some (PStr ''failed'')
             \<and> t ''progress'' = Some (PInt 0)
             \<and> t ''error'' = Some (PStr ''Conversion failed''))"
    using runner_records_adapter_result
            [of silent_lib ?in uploaded exact_floats default_params ?out "''j1''"]
      path
    by blast
  have b: "run_adapter exact_floats sample_lib ?in ?out default_params ''j1'' uploaded
             = (Return True,
                snd (run_adapter exact_floats sample_lib ?in ?out default_params ''j1'' uploaded))"
    using sample_run by (simp add: prod_eq_iff)
  have c: "\<exists>t. conversion_tasks (snd (background_convert exact_floats sample_lib ?in ?out
                  default_params ''j1'' uploaded)) ''j1'' = Some t
             \<and> t ''status'' = Some (PStr ''completed'')
             \<and> t ''progress'' = Some (PInt 100)"
    using runner_records_adapter_result
            [of sample_lib ?in uploaded exact_floats default_params ?out "''j1''"]
      b
    by (metis (full_types))
  show ?thesis
    using a c sample_run silent_steps(1) silent_steps(6) missing by blast
qed

text \<open>
  C5 as stated fails: in a run in which \<open>write_gif\<close> returns and the output file is not
  in storage, the error detail recorded is "Conversion failed", not a detail about a
  missing output; the entry is the same as after a run whose source could not be opened.
\<close>

theorem output_missing_detail_counterexample:
  "(case conversion_tasks (snd (background_convert exact_floats silent_lib ''/tmp/flask_gif_input_j1_in.mp4''
              ''/tmp/flask_gif_output_j1.gif'' default_params ''j1'' uploaded)) ''j1'' of
      None \<Rightarrow> False
    | Some t \<Rightarrow> t ''status'' = Some (PStr ''failed'')
              \<and> t ''error'' = Some (PStr ''Conversion failed'')
              \<and> t ''error'' \<noteq> Some (PStr ''output missing''))
   \<and> ''/tmp/flask_gif_output_j1.gif'' \<notin> files (snd (background_convert exact_floats silent_lib
              ''/tmp/flask_gif_input_j1_in.mp4'' ''/tmp/flask_gif_output_j1.gif''
              default_params ''j1'' uploaded))
   \<and> conversion_tasks (snd (background_convert exact_floats silent_lib ''/tmp/flask_gif_input_j1_in.mp4''
              ''/tmp/flask_gif_output_j1.gif'' default_params ''j1'' uploaded)) ''j1''
     = conversion_tasks (snd (background_convert exact_floats sample_lib ''/tmp/no_such_file.mp4''
              ''/tmp/flask_gif_output_j1.gif'' default_params ''j1'' uploaded)) ''j1''"
  by (simp add: background_convert_def run_defs fail_def update_entry_def safe_progress_def
        progress_hook_def update_progress_def)

section \<open>The conversion adapter\<close>

text \<open>
  C3, on a failing input. The source is a clip of 10 seconds and the start time is 12, so
  \<open>subclipped\<close> raises. The adapter leaves by that exception, and the reader it opened on
  the source file is still open afterwards: no \<open>close\<close> ran.
\<close>

theorem adapter_leaves_clip_open_on_transform_error:
  "open_files uploaded = []
   \<and> fst (convert_video_to_gif_web exact_floats sample_lib ''/tmp/flask_gif_input_j1_in.mp4''
          ''/tmp/flask_gif_output_j1.gif'' 10 (1 / 2) 12 None 0 1
          (Some (progress_hook ''j1'')) uploaded)
     = Raise (LibraryError ''start_time should be smaller than the duration'')
   \<and> open_files (snd (convert_video_to_gif_web exact_floats sample_lib ''/tmp/flask_gif_input_j1_in.mp4''
          ''/tmp/flask_gif_output_j1.gif'' 10 (1 / 2) 12 None 0 1
          (Some (progress_hook ''j1'')) uploaded))
     = [''/tmp/flask_gif_input_j1_in.mp4'']"
  by (simp add: convert_video_to_gif_web_def sample_lib_def uploaded_def apply_time_def
        time_window_def effective_duration_def exact_floats_def)

text \<open>
  C6, on a failing input. The same run is not a success: the adapter leaves by the
  exception of \<open>subclipped\<close>. The percentages it has reported are 5 and 20: the last one
  is 20, not \<open>-1\<close>.
\<close>

theorem adapter_reports_no_error_signal_on_transform_error:
  "fst (convert_video_to_gif_web exact_floats sample_lib ''/tmp/flask_gif_input_j1_in.mp4''
          ''/tmp/flask_gif_output_j1.gif'' 10 (1 / 2) 12 None 0 1
          (Some (progress_hook ''j1'')) uploaded)
     = Raise (LibraryError ''start_time should be smaller than the duration'')
   \<and> reported (snd (convert_video_to_gif_web exact_floats sample_lib ''/tmp/flask_gif_input_j1_in.mp4''
          ''/tmp/flask_gif_output_j1.gif'' 10 (1 / 2) 12 None 0 1
          (Some (progress_hook ''j1'')) uploaded))
     = [5, 20]"
  by (simp add: convert_video_to_gif_web_def sample_lib_def uploaded_def apply_time_def
        time_window_def effective_duration_def exact_floats_def)

section \<open>The time window\<close>

text \<open>
  C7, as the code has it. The duration is clipped; the start offset is not. A positive
  start time is handed to \<open>subclipped\<close> unchanged, however large, and a start time that is
  not positive is replaced by 0. For a positive start time and a given duration: if start
  plus duration exceeds the length of the source, the duration becomes the length minus
  the start, and otherwise it stays; the end of the window is the start plus the
  resulting duration. For a start time that is not positive and a given duration: a
  duration that exceeds the length becomes the length, and the window is from 0 to the
  resulting duration. With no duration the window is from the start time to the end of
  the source for a positive start time, and no window is cut otherwise. Sums,
  differences and comparisons are those of the floats. In exact arithmetic the end of the
  window is the smaller of start plus duration and the length, so that for a start time
  between 0 and the length and a duration that is not negative the window lies within
  the source. A source of 10 seconds with start time 8 and duration 5 gives the duration
  2 and the window from 8 to 10.
\<close>

theorem time_window_clips_duration_only:
  "(fgt F start_time (fzero F) \<longrightarrow>
       time_window F start_time None source_len = Some (start_time, None)
     \<and> (fgt F (fadd F start_time d) source_len \<longrightarrow>
          effective_duration F start_time (Some d) source_len
            = Some (fsub F source_len start_time)
        \<and> time_window F start_time (Some d) source_len
            = Some (start_time, Some (fadd F start_time (fsub F source_len start_time))))
     \<and> (\<not> fgt F (fadd F start_time d) source_len \<longrightarrow>
          effective_duration F start_time (Some d) source_len = Some d
        \<and> time_window F start_time (Some d) source_len
            = Some (start_time, Some (fadd F start_time d))))
   \<and> (\<not> fgt F start_time (fzero F) \<longrightarrow>
       time_window F start_time None source_len = None
     \<and> effective_duration F start_time (Some d) source_len
         = Some (if fgt F d source_len then source_len else d)
     \<and> time_window F start_time (Some d) source_len
         = Some (fzero F, Some (if fgt F d source_len then source_len else d)))
   \<and> (\<forall>st dur len. time_window exact_floats st (Some dur) len
         = Some (max 0 st, Some (min (max 0 st + dur) len)))
   \<and> (\<forall>st dur len. 0 \<le> st \<and> st \<le> len \<and> 0 \<le> dur \<longrightarrow>
         (\<exists>e. time_window exact_floats st (Some dur) len = Some (st, Some e)
              \<and> st \<le> e \<and> e \<le> len))
   \<and> effective_duration exact_floats 8 (Some 5) 10 = Some 2
   \<and> time_window exact_floats 8 (Some 5) 10 = Some (8, Some 10)"
proof -
  have exact: "time_window exact_floats st (Some dur) len
                 = Some (max 0 st, Some (min (max 0 st + dur) len))" for st dur len
    by (auto simp: time_window_def effective_duration_def exact_floats_def)
  have inside: "\<exists>e. time_window exact_floats st (Some dur) len = Some (st, Some e)
                  \<and> st \<le> e \<and> e \<le> len"
    if "0 \<le> st \<and> st \<le> len \<and> 0 \<le> dur" for st dur len
    using that exact [of st dur len] by auto
  have generic_pos: "fgt F start_time (fzero F) \<Longrightarrow>
       time_window F start_time None source_len = Some (start_time, None)
     \<and> (fgt F (fadd F start_time d) source_len \<longrightarrow>
          effective_duration F start_time (Some d) source_len
            = Some (fsub F source_len start_time)
        \<and> time_window F start_time (Some d) source_len
            = Some (start_time, Some (fadd F start_time (fsub F source_len start_time))))
     \<and> (\<not> fgt F (fadd F start_time d) source_len \<longrightarrow>
          effective_duration F start_time (Some d) source_len = Some d
        \<and> time_window F start_time (Some d) source_len
            = Some (start_time, Some (fadd F start_time d)))"
    by (simp add: time_window_def effective_duration_def)
  have generic_nonpos: "\<not> fgt F start_time (fzero F) \<Longrightarrow>
       time_window F start_time None source_len = None
     \<and> effective_duration F start_time (Some d) source_len
         = Some (if fgt F d source_len then source_len else d)
     \<and> time_window F start_time (Some d) source_len
         = Some (fzero F, Some (if fgt F d source_len then source_len else d))"
    by (simp add: time_window_def effective_duration_def)
  have example: "effective_duration exact_floats 8 (Some 5) 10 = Some 2
               \<and> time_window exact_floats 8 (Some 5) 10 = Some (8, Some 10)"
    by (simp add: time_window_def effective_duration_def exact_floats_def)
  show ?thesis
    using exact inside generic_pos generic_nonpos example by blast
qed

theorem time_window_clips_duration_only_witness:
  "fgt exact_floats 8 (fzero exact_floats)
   \<and> fgt exact_floats (fadd exact_floats 8 5) 10
   \<and> effective_duration exact_floats 8 (Some 5) 10 = Some (fsub exact_floats 10 8)
   \<and> time_window exact_floats 8 (Some 5) 10 = Some (8, Some 10)
   \<and> time_window exact_floats 8 None 10 = Some (8, None)
   \<and> \<not> fgt exact_floats (fadd exact_floats 2 5) 10
   \<and> effective_duration exact_floats 2 (Some 5) 10 = Some 5
   \<and> time_window exact_floats 2 (Some 5) 10 = Some (2, Some 7)
   \<and> \<not> fgt exact_floats 0 (fzero exact_floats)
   \<and> effective_duration exact_floats 0 (Some 15) 10 = Some 10
   \<and> time_window exact_floats 0 (Some 15) 10 = Some (0, Some 10)
   \<and> time_window exact_floats 0 None 10 = None
   \<and> (0::rat) \<le> 2 \<and> (2::rat) \<le> 10 \<and> (0::rat) \<le> 5
   \<and> (\<exists>e. time_window exact_floats 2 (Some 5) 10 = Some (2, Some e) \<and> 2 \<le> e \<and> e \<le> 10)"
proof -
  have ops: "fgt exact_floats 8 (fzero exact_floats)"
     "fgt exact_floats (fadd exact_floats 8 5) 10"
     "fgt exact_floats 2 (fzero exact_floats)"
     "\<not> fgt exact_floats (fadd exact_floats 2 5) 10"
     "\<not> fgt exact_floats 0 (fzero exact_floats)"
     "fgt exact_floats 15 10"
     "fsub exact_floats 10 8 = 2" "fadd exact_floats 8 2 = 10" "fadd exact_floats 2 5 = 7"
     "fzero exact_floats = 0"
    by (simp_all add: exact_floats_def)
  have range: "(0::rat) \<le> 2 \<and> (2::rat) \<le> 10 \<and> (0::rat) \<le> 5" by simp
  show ?thesis
    using time_window_clips_duration_only [of exact_floats 8 10 5]
      time_window_clips_duration_only [of exact_floats 2 10 5]
      time_window_clips_duration_only [of exact_floats 0 10 15]
      ops range
    by (simp add: ops)
qed

text \<open>
  C7 as stated fails: with start time 12 on a source of 10 seconds the start is not
  clipped. With duration 5 the window is from 12 to 10 and the duration is -2; with no
  duration the window starts at 12. All the values here are integers, on which the
  arithmetic of floats is exact.
\<close>

theorem start_offset_not_clipped_counterexample:
  "time_window exact_floats 12 (Some 5) 10 = Some (12, Some 10)
   \<and> effective_duration exact_floats 12 (Some 5) 10 = Some (- 2)
   \<and> time_window exact_floats 12 None 10 = Some (12, None)
   \<and> (12::rat) > 10"
  by (simp add: time_window_def effective_duration_def exact_floats_def)

section \<open>The upload filename check\<close>

text \<open>
  C9. Whatever \<open>str.lower\<close> does, \<open>allowed_file\<close> never raises, and it accepts a name exactly
  when the name contains a dot and its final dot-separated segment, lowercased, is one
  of mp4, avi, mov, mkv and webm. So the check does not depend on the case of the
  extension: two names with a dot whose final segments have the same lowercase form get
  the same answer. \<open>CLIP.MP4\<close> is accepted, since \<open>MP4\<close> in lower case is \<open>mp4\<close>, and every
  name without a dot is rejected.
\<close>

theorem allowed_file_refines_spec:
  "allowed_file str_lower filename = Return (spec_accepts str_lower filename)
   \<and> (str_lower ''MP4'' = ''mp4'' \<longrightarrow> allowed_file str_lower ''CLIP.MP4'' = Return True)
   \<and> (CHR ''.'' \<notin> set filename \<longrightarrow> allowed_file str_lower filename = Return False)
   \<and> (CHR ''.'' \<in> set filename \<and> CHR ''.'' \<in> set other
        \<and> str_lower (final_segment filename) = str_lower (final_segment other)
      \<longrightarrow> allowed_file str_lower filename = allowed_file str_lower other)"
proof (intro conjI impI)
  show "allowed_file str_lower filename = Return (spec_accepts str_lower filename)"
    by (rule allowed_file_eq_spec)
  show "allowed_file str_lower ''CLIP.MP4'' = Return True" if "str_lower ''MP4'' = ''mp4''"
    using that by (simp add: allowed_file_eq_spec spec_accepts_def final_segment_samples)
  show "allowed_file str_lower filename = Return False" if "CHR ''.'' \<notin> set filename"
    using that by (simp add: allowed_file_def)
  show "allowed_file str_lower filename = allowed_file str_lower other"
    if "CHR ''.'' \<in> set filename \<and> CHR ''.'' \<in> set other
        \<and> str_lower (final_segment filename) = str_lower (final_segment other)"
    using that by (simp add: allowed_file_eq_spec spec_accepts_def)
qed

theorem allowed_file_refines_spec_witness:
  "ascii_lower ''MP4'' = ''mp4''
   \<and> allowed_file ascii_lower ''CLIP.MP4'' = Return True
   \<and> CHR ''.'' \<notin> set ''README''
   \<and> allowed_file ascii_lower ''README'' = Return False
   \<and> ascii_lower (final_segment ''a.MKV'') = ascii_lower (final_segment ''b.c.mkv'')
   \<and> allowed_file ascii_lower ''a.MKV'' = allowed_file ascii_lower ''b.c.mkv''
   \<and> allowed_file ascii_lower ''b.c.mkv'' = Return True
   \<and> allowed_file ascii_lower ''Movie.WebM'' = Return True
   \<and> allowed_file ascii_lower ''clip.txt'' = Return False
   \<and> allowed_file ascii_lower ''a.mp4.txt'' = Return False"
proof -
  have dots: "CHR ''.'' \<notin> set ''README''" "CHR ''.'' \<in> set ''a.MKV''"
    "CHR ''.'' \<in> set ''b.c.mkv''" "CHR ''.'' \<in> set ''Movie.WebM''"
    "CHR ''.'' \<in> set ''clip.txt''" "CHR ''.'' \<in> set ''a.mp4.txt''"
    by simp_all
  show ?thesis
    using allowed_file_refines_spec [of ascii_lower "''README''" "''README''"]
      allowed_file_refines_spec [of ascii_lower "''a.MKV''" "''b.c.mkv''"]
      allowed_file_refines_spec [of ascii_lower "''b.c.mkv''" "''b.c.mkv''"]
      allowed_file_refines_spec [of ascii_lower "''Movie.WebM''" "''Movie.WebM''"]
      allowed_file_refines_spec [of ascii_lower "''clip.txt''" "''clip.txt''"]
      allowed_file_refines_spec [of ascii_lower "''a.mp4.txt''" "''a.mp4.txt''"]
      dots
    by (simp add: spec_accepts_def final_segment_samples ascii_lower_samples)
qed

section \<open>The credential gate\<close>

text \<open>
  C10. A header value that is a non-empty string is the credential checked, whatever the
  form holds. With the header absent or empty the form field is the credential checked.
  With both absent or empty the request is refused with status 401 and "API key
  required for conversion", not with status 403 and "Invalid API key".
\<close>

theorem require_api_key_gate:
  "(\<forall>k. header = Some k \<and> k \<noteq> [] \<longrightarrow>
       require_api_key API_KEY f header form =
         (if k = API_KEY then Inr f else Inl (403, ''Invalid API key'')))
   \<and> ((header = None \<or> header = Some []) \<longrightarrow>
       require_api_key API_KEY f header form =
         (case form of
            None \<Rightarrow> Inl (401, ''API key required for conversion'')
          | Some k \<Rightarrow>
              if k = [] then Inl (401, ''API key required for conversion'')
              else if k = API_KEY then Inr f
              else Inl (403, ''Invalid API key'')))
   \<and> ((header = None \<or> header = Some []) \<and> (form = None \<or> form = Some []) \<longrightarrow>
       require_api_key API_KEY f header form = Inl (401, ''API key required for conversion'')
       \<and> require_api_key API_KEY f header form \<noteq> Inl (403, ''Invalid API key''))"
  by (auto simp: require_api_key_def py_or_def truthy_def split: option.splits)

theorem require_api_key_gate_witness:
  "require_api_key ''s3cret'' True (Some ''s3cret'') (Some ''other'') = Inr True
   \<and> require_api_key ''s3cret'' True (Some ''guess'') (Some ''s3cret'')
       = Inl (403, ''Invalid API key'')
   \<and> require_api_key ''s3cret'' True (Some []) (Some ''s3cret'') = Inr True
   \<and> require_api_key ''s3cret'' True None (Some ''guess'') = Inl (403, ''Invalid API key'')
   \<and> require_api_key ''s3cret'' True None (Some [])
       = Inl (401, ''API key required for conversion'')
   \<and> require_api_key ''s3cret'' True (Some []) None
       = Inl (401, ''API key required for conversion'')"
  using require_api_key_gate [of "Some ''s3cret''" "''s3cret''" True "Some ''other''"]
    require_api_key_gate [of "Some ''guess''" "''s3cret''" True "Some ''s3cret''"]
    require_api_key_gate [of "Some []" "''s3cret''" True "Some ''s3cret''"]
    require_api_key_gate [of None "''s3cret''" True "Some ''guess''"]
    require_api_key_gate [of None "''s3cret''" True "Some []"]
    require_api_key_gate [of "Some []" "''s3cret''" True None]
  by simp

end
